theory Spec2Isabelle
  imports Main "HOL-Library.Word"
begin

section \<open>Terms, types and the collaborators of the equality query\<close>

text \<open>
  A \<open>Node\<close> of the solver is an immutable, hash-consed term: two handles are equal
  exactly when the terms are structurally equal, so a term is a value of a datatype and
  \<open>a == b\<close> is HOL equality. A term has a kind, a payload that names its symbol
  or value, and a child sequence. \<open>Node::null()\<close> is \<open>None\<close> of
  \<open>node option\<close>: the positions of the code that may hold the null node (the
  quantifier \<open>q\<close>, \<open>r_best\<close>, the model's witness \<open>tr\<close>,
  the result of \<open>getInstance\<close>) have that type, and the terms that the
  equality engine enumerates, which are never null, have type \<open>node\<close>.
\<close>

datatype kind =
    FORALL | BOUND_VAR_LIST | BOUND_VARIABLE | VARIABLE | SKOLEM
  | CONST_RATIONAL | UNINTERPRETED_CONSTANT | APPLY_UF | TO_INTEGER

datatype node = Node (getKind: kind) (getSymbol: string) (getChildren: "node list")

text \<open>A \<open>TypeNode\<close> is an opaque handle; the subtype relation is the type system's.\<close>

datatype tnode = TypeNode string

datatype QuantRepMode = EE | FIRST | DEPTH

text \<open>
  The equality engine (\<open>eq::EqualityEngine\<close>) is consumed through four queries and
  the class iterator; \<open>ee_areDisequal a b\<close> is \<open>areDisequal(a, b, false)\<close>
  and \<open>ee_eqc_iter rep\<close> is the sequence that \<open>EqClassIterator(rep, ee)\<close>
  yields until \<open>isFinished()\<close>.
\<close>

record equality_engine =
  ee_hasTerm :: "node \<Rightarrow> bool"
  ee_getRepresentative :: "node \<Rightarrow> node"
  ee_areEqual :: "node \<Rightarrow> node \<Rightarrow> bool"
  ee_areDisequal :: "node \<Rightarrow> node \<Rightarrow> bool"
  ee_eqc_iter :: "node \<Rightarrow> node list"

text \<open>The options read by the file (\<open>options::...()\<close>).\<close>

record options =
  finiteModelFind :: bool
  quantRepMode :: QuantRepMode
  cbqi :: bool
  lteRestrictInstClosure :: bool
  instMaxLevel :: int
  instLevelInputOnly :: bool

text \<open>
  Everything else the file reads from outside itself: the active equality engine, the
  options, the model's map from a value to a witnessing term
  (\<open>getModel()->getRepSet()->getTermForRepresentative\<close>; \<open>getModel\<close> is
  \<open>None\<close> when \<open>d_qe->getModel()\<close> is the null pointer), the type system, and
  the attributes and flags of terms kept by the term database. They are parameters: none
  of them is defined in the file. The instantiation level is an attribute of type
  \<open>uint64_t\<close>, read as \<open>64 word option\<close> (\<open>None\<close> when
  \<open>hasAttribute\<close> is false).
\<close>

record env =
  getActiveEqualityEngine :: equality_engine
  opts :: options
  getModel :: "(node \<Rightarrow> node option) option"
  getType :: "node \<Rightarrow> tnode"
  isSubtypeOf :: "tnode \<Rightarrow> tnode \<Rightarrow> bool"
  isSort :: "tnode \<Rightarrow> bool"
  isConst :: "node \<Rightarrow> bool"
  containsUninterpretedConstant :: "node \<Rightarrow> bool"
  hasInstConstAttr :: "node \<Rightarrow> bool"
  isInstClosure :: "node \<Rightarrow> bool"
  hasTermCurrent :: "node \<Rightarrow> bool"
  InstLevelAttribute :: "node \<Rightarrow> 64 word option"

text \<open>
  The members of \<open>EqualityQueryQuantifiersEngine\<close>: \<open>d_int_rep\<close> is a
  \<open>std::map\<close> from a type to a \<open>std::map\<close> from the raw representative to
  the chosen one (a type with no entry yet has the empty inner map, which is what
  \<open>operator[]\<close> creates), \<open>d_rep_score\<close> maps a chosen term to the value of
  \<open>d_reset_count\<close> when it was first chosen. The counter is a C++ \<open>int\<close>
  that only ever grows by one; its overflow is undefined in C++ and out of reach, and the
  model counts in the integers.
\<close>

record state =
  d_int_rep :: "tnode \<Rightarrow> (node \<rightharpoonup> node)"
  d_rep_score :: "node \<rightharpoonup> int"
  d_reset_count :: int

text \<open>
  The file is modelled as built with assertions: a failing \<open>Assert\<close> halts the
  solver, and so does an access the node library refuses. Each is a value of
  \<open>error\<close>, named after the place it comes from.
\<close>

datatype error =
    Assert_q_is_FORALL
  | Assert_UF_constant_has_term
  | Assert_in_own_eqc
  | Assert_rep_is_subtype
  | Assert_quantRepMode_is_DEPTH
  | Child_index_out_of_range
  | Null_node_dereferenced

datatype effort = EFFORT_STANDARD | EFFORT_FULL | EFFORT_COMBINATION | EFFORT_LAST_CALL

section \<open>The operations of equality\_query.cpp\<close>

text \<open>The constructor: an empty cache, an empty first-chosen table, generation 0.\<close>

definition init_state :: state where
  "init_state = \<lparr>d_int_rep = (\<lambda>_. Map.empty), d_rep_score = Map.empty, d_reset_count = 0\<rparr>"

definition reset :: "effort \<Rightarrow> state \<Rightarrow> bool \<times> state" where
  "reset e s = (True, s\<lparr>d_int_rep := (\<lambda>_. Map.empty), d_reset_count := d_reset_count s + 1\<rparr>)"

definition getEngine :: "env \<Rightarrow> equality_engine" where
  "getEngine E = getActiveEqualityEngine E"

definition hasTerm :: "env \<Rightarrow> node \<Rightarrow> bool" where
  "hasTerm E a = ee_hasTerm (getEngine E) a"

definition getRepresentative :: "env \<Rightarrow> node \<Rightarrow> node" where
  "getRepresentative E a =
     (let ee = getEngine E in
      if ee_hasTerm ee a then ee_getRepresentative ee a else a)"

definition areEqual :: "env \<Rightarrow> node \<Rightarrow> node \<Rightarrow> bool" where
  "areEqual E a b =
     (if a = b then True
      else (let ee = getEngine E in
            if ee_hasTerm ee a \<and> ee_hasTerm ee b then ee_areEqual ee a b else False))"

definition areDisequal :: "env \<Rightarrow> node \<Rightarrow> node \<Rightarrow> bool" where
  "areDisequal E a b =
     (if a = b then False
      else (let ee = getEngine E in
            if ee_hasTerm ee a \<and> ee_hasTerm ee b then ee_areDisequal ee a b
            else isConst E a \<and> isConst E b))"

text \<open>
  \<open>getEquivalenceClass\<close> appends to the vector \<open>eqc\<close> it is given by
  reference; the model returns the vector. The final \<open>Assert\<close> is the error
  branch.
\<close>

definition getEquivalenceClass :: "env \<Rightarrow> node \<Rightarrow> node list \<Rightarrow> error + node list" where
  "getEquivalenceClass E a eqc =
     (let ee = getEngine E;
          eqc' = (if ee_hasTerm ee a then eqc @ ee_eqc_iter ee (ee_getRepresentative ee a)
                  else eqc @ [a])
      in if a \<in> set eqc' then Inr eqc' else Inl Assert_in_own_eqc)"

text \<open>
  \<open>getInstance\<close> with its memo table \<open>cache\<close>, which the C++ passes by
  reference: the model returns the table with the result. \<open>getInstance_children\<close> is
  the \<open>for\<close> loop over \<open>n[i]\<close>, which returns at the first child whose search
  is not null; the store \<open>cache[n] = nn\<close> of that return is made by the caller of
  the loop, as in the source.
\<close>

type_synonym instance_cache = "node \<rightharpoonup> node option"

fun getInstance :: "node \<Rightarrow> node list \<Rightarrow> instance_cache \<Rightarrow> node option \<times> instance_cache"
  and getInstance_children ::
    "node list \<Rightarrow> node list \<Rightarrow> instance_cache \<Rightarrow> node option \<times> instance_cache"
where
  "getInstance (Node k sy cs) eqc cache =
     (case cache (Node k sy cs) of
        Some v \<Rightarrow> (v, cache)
      | None \<Rightarrow>
          (case getInstance_children cs eqc cache of
             (Some nn, cache') \<Rightarrow> (Some nn, cache'(Node k sy cs \<mapsto> Some nn))
           | (None, cache') \<Rightarrow>
               if Node k sy cs \<in> set eqc
               then (Some (Node k sy cs), cache'(Node k sy cs \<mapsto> Some (Node k sy cs)))
               else (None, cache'(Node k sy cs \<mapsto> None))))"
| "getInstance_children [] eqc cache = (None, cache)"
| "getInstance_children (c # cs) eqc cache =
     (case getInstance c eqc cache of
        (Some nn, cache') \<Rightarrow> (Some nn, cache')
      | (None, cache') \<Rightarrow> getInstance_children cs eqc cache')"

text \<open>
  Modelled from the spec: \<open>TermUtil::getTermDepth\<close> is called by
  \<open>getRepScore\<close> and is not defined in the file. The spec: "the term's structural
  depth (number of nested operator applications from leaves)".
\<close>

fun getTermDepth :: "node \<Rightarrow> int" where
  "getTermDepth (Node k sy cs) = 1 + fold max (map getTermDepth cs) (- 1)"

text \<open>
  \<open>getRepScore\<close> returns \<open>int\<close>, which has 32 bits, and line 240 returns the
  \<open>uint64_t\<close> level through it: the conversion keeps the low 32 bits and reads them
  in two's complement.
\<close>

definition uint64_to_int :: "64 word \<Rightarrow> int" where
  "uint64_to_int level = sint (ucast level :: 32 word)"

text \<open>
  \<open>getRepScore\<close>: -2 invalid, -1 undesired, otherwise the smaller the better. The
  arguments \<open>q\<close> and \<open>index\<close> are passed and not read. The last branch
  asserts that the mode is \<open>DEPTH\<close>.
\<close>

definition getRepScore ::
  "env \<Rightarrow> state \<Rightarrow> node \<Rightarrow> node option \<Rightarrow> int \<Rightarrow> tnode \<Rightarrow> error + int" where
  "getRepScore E s n q index v_tn =
     (if cbqi (opts E) \<and> hasInstConstAttr E n then Inr (- 2)
      else if \<not> isSubtypeOf E (getType E n) v_tn then Inr (- 2)
      else if lteRestrictInstClosure (opts E) \<and> (\<not> isInstClosure E n \<or> \<not> hasTermCurrent E n)
        then Inr (- 1)
      else if instMaxLevel (opts E) \<noteq> - 1 then
        (case InstLevelAttribute E n of
           Some level \<Rightarrow> Inr (uint64_to_int level)
         | None \<Rightarrow> Inr (if instLevelInputOnly (opts E) then - 1 else 0))
      else
        (if quantRepMode (opts E) = FIRST then
           Inr (case d_rep_score s n of None \<Rightarrow> - 1 | Some g \<Rightarrow> g)
         else if quantRepMode (opts E) \<noteq> DEPTH then Inl Assert_quantRepMode_is_DEPTH
         else Inr (getTermDepth n)))"

text \<open>
  Lines 95 to 113 of \<open>getInternalRepresentative\<close>: under finite model finding a
  representative that is a value containing an uninterpreted constant is mapped back to
  a term of the model, whose representative is taken again.
\<close>

definition mapModelValue :: "env \<Rightarrow> node \<Rightarrow> error + node" where
  "mapModelValue E r =
     (if finiteModelFind (opts E) then
        (if isConst E r \<and> containsUninterpretedConstant E r then
           (case getModel E of
              Some getTermForRepresentative \<Rightarrow>
                (case getTermForRepresentative r of
                   Some tr \<Rightarrow> Inr (getRepresentative E tr)
                 | None \<Rightarrow>
                     if isSort E (getType E r) then Inl Assert_UF_constant_has_term else Inr r)
            | None \<Rightarrow> Inr r)
         else Inr r)
      else Inr r)"

text \<open>
  Line 120, \<open>q.isNull() ? a.getType() : q[0][index].getType()\<close>. The node
  library refuses a child index outside the child sequence.
\<close>

definition nodeChild :: "node \<Rightarrow> int \<Rightarrow> error + node" where
  "nodeChild n i =
     (if 0 \<le> i \<and> nat i < length (getChildren n) then Inr (getChildren n ! nat i)
      else Inl Child_index_out_of_range)"

definition targetType :: "env \<Rightarrow> node \<Rightarrow> node option \<Rightarrow> int \<Rightarrow> error + tnode" where
  "targetType E a q index =
     (case q of
        None \<Rightarrow> Inr (getType E a)
      | Some qn \<Rightarrow>
          (case nodeChild qn 0 of
             Inl e \<Rightarrow> Inl e
           | Inr bvl \<Rightarrow>
               (case nodeChild bvl index of
                  Inl e \<Rightarrow> Inl e
                | Inr v \<Rightarrow> Inr (getType E v))))"

text \<open>
  Lines 149 to 158, the selection loop: \<open>selectBest score eqc r_best r_best_score\<close>
  runs the loop body over the members left to enumerate and returns the two variables.
  The loop starts from the null node and -1. A call of the scorer that halts ends the
  loop.
\<close>

fun selectBest ::
  "(node \<Rightarrow> error + int) \<Rightarrow> node list \<Rightarrow> node option \<Rightarrow> int \<Rightarrow> error + node option \<times> int" where
  "selectBest score [] r_best r_best_score = Inr (r_best, r_best_score)"
| "selectBest score (n # ns) r_best r_best_score =
     (case score n of
        Inl e \<Rightarrow> Inl e
      | Inr sc \<Rightarrow>
          if sc \<noteq> - 2 then
            (if r_best = None \<or> (sc \<ge> 0 \<and> (r_best_score < 0 \<or> sc < r_best_score))
             then selectBest score ns (Some n) sc
             else selectBest score ns r_best r_best_score)
          else selectBest score ns r_best r_best_score)"

text \<open>Lines 159 to 162: the raw representative when the loop found no member.\<close>

definition scoredWinner :: "(node \<Rightarrow> error + int) \<Rightarrow> node list \<Rightarrow> node \<Rightarrow> error + node" where
  "scoredWinner score eqc r =
     (case selectBest score eqc None (- 1) of
        Inl e \<Rightarrow> Inl e
      | Inr (r_best, r_best_score) \<Rightarrow> Inr (case r_best of None \<Rightarrow> r | Some n \<Rightarrow> n))"

text \<open>
  Lines 130 to 177, the cache miss: the class of \<open>r\<close> is enumerated, scored, the
  winner is replaced by the result of \<open>getInstance\<close> on a fresh memo table, the
  first-chosen table records it when it has no entry, the type is asserted and the cache
  entry for \<open>(v_tn, r)\<close> is written.
\<close>

definition chooseRepresentative ::
  "env \<Rightarrow> state \<Rightarrow> node option \<Rightarrow> int \<Rightarrow> tnode \<Rightarrow> node \<Rightarrow> error + node \<times> state" where
  "chooseRepresentative E s q index v_tn r =
     (case getEquivalenceClass E r [] of
        Inl e \<Rightarrow> Inl e
      | Inr eqc \<Rightarrow>
          (case scoredWinner (\<lambda>n. getRepScore E s n q index v_tn) eqc r of
             Inl e \<Rightarrow> Inl e
           | Inr winner \<Rightarrow>
               (case fst (getInstance winner eqc Map.empty) of
                  None \<Rightarrow> Inl Null_node_dereferenced
                | Some r_best \<Rightarrow>
                    (let s1 = (if d_rep_score s r_best = None
                               then s\<lparr>d_rep_score := (d_rep_score s)(r_best \<mapsto> d_reset_count s)\<rparr>
                               else s)
                     in if \<not> isSubtypeOf E (getType E r_best) v_tn then Inl Assert_rep_is_subtype
                        else Inr (r_best,
                               s1\<lparr>d_int_rep :=
                                    (d_int_rep s1)(v_tn := (d_int_rep s1 v_tn)(r \<mapsto> r_best))\<rparr>)))))"

text \<open>
  Lines 114 to 179, what \<open>getInternalRepresentative\<close> does with the
  representative \<open>r\<close> that lines 94 to 113 leave: in mode \<open>EE\<close> it is
  returned and the cache is not read; otherwise the cache of the target type is read and
  the miss chooses.
\<close>

definition lookupOrChoose ::
  "env \<Rightarrow> state \<Rightarrow> node \<Rightarrow> node option \<Rightarrow> int \<Rightarrow> node \<Rightarrow> error + node \<times> state" where
  "lookupOrChoose E s a q index r =
     (if quantRepMode (opts E) = EE then Inr (r, s)
      else
        (case targetType E a q index of
           Inl e \<Rightarrow> Inl e
         | Inr v_tn \<Rightarrow>
             (case d_int_rep s v_tn r of
                Some chosen \<Rightarrow> Inr (chosen, s)
              | None \<Rightarrow> chooseRepresentative E s q index v_tn r)))"

definition getInternalRepresentative ::
  "env \<Rightarrow> state \<Rightarrow> node \<Rightarrow> node option \<Rightarrow> int \<Rightarrow> error + node \<times> state" where
  "getInternalRepresentative E s a q index =
     (if \<not> (case q of None \<Rightarrow> True | Some qn \<Rightarrow> getKind qn = FORALL) then Inl Assert_q_is_FORALL
      else
        (case mapModelValue E (getRepresentative E a) of
           Inl e \<Rightarrow> Inl e
         | Inr r \<Rightarrow> lookupOrChoose E s a q index r))"

text \<open>
  A session of the instantiation engine, the sole caller: a sequence of calls, each on
  the state the previous one left and with the collaborators as they are at that moment.
  A call that halts ends the session.
\<close>

datatype call =
    Call_reset effort
  | Call_getInternalRepresentative env node "node option" int

fun run :: "call list \<Rightarrow> state \<Rightarrow> error + state" where
  "run [] s = Inr s"
| "run (Call_reset e # cs) s = run cs (snd (reset e s))"
| "run (Call_getInternalRepresentative E a q index # cs) s =
     (case getInternalRepresentative E s a q index of
        Inl e \<Rightarrow> Inl e
      | Inr (x, s') \<Rightarrow> run cs s')"

section \<open>The specification's reading of the selection and of the instance guard\<close>




text \<open>
  The subterms of a term in the order of a depth-first, left-to-right search that reports
  the deepest first: each child's subterms before the child, the term itself last.
\<close>

fun subtermsDeepestFirst :: "node \<Rightarrow> node list" where
  "subtermsDeepestFirst (Node k sy cs) = concat (map subtermsDeepestFirst cs) @ [Node k sy cs]"

definition properSubterms :: "node \<Rightarrow> node list" where
  "properSubterms n = concat (map subtermsDeepestFirst (getChildren n))"

text \<open>
  The instance guard as the specification words it: the first proper subterm that is a
  member of the class if there is one, else the candidate if it is a member, else null.
\<close>

definition firstNestedMember :: "node \<Rightarrow> node list \<Rightarrow> node option" where
  "firstNestedMember candidate eqc =
     (case find (\<lambda>m. m \<in> set eqc) (properSubterms candidate) of
        Some m \<Rightarrow> Some m
      | None \<Rightarrow> if candidate \<in> set eqc then Some candidate else None)"

text \<open>A memo table is sound for a class when each entry is what the search returns.\<close>

definition cacheSound :: "node list \<Rightarrow> instance_cache \<Rightarrow> bool" where
  "cacheSound eqc cache =
     (\<forall>n v. cache n = Some v \<longrightarrow> v = find (\<lambda>m. m \<in> set eqc) (subtermsDeepestFirst n))"

text \<open>
  Generations are counted from 0, so the counter and every recorded generation are
  non-negative in every state a session reaches.
\<close>

definition generationsNonneg :: "state \<Rightarrow> bool" where
  "generationsNonneg s =
     (0 \<le> d_reset_count s \<and> (\<forall>n g. d_rep_score s n = Some g \<longrightarrow> 0 \<le> g))"


section \<open>Concrete terms, engines and configurations\<close>

definition tInt :: tnode where "tInt = TypeNode ''Int''"
definition tReal :: tnode where "tReal = TypeNode ''Real''"
definition tU :: tnode where "tU = TypeNode ''U''"

definition ex_a :: node where "ex_a = Node SKOLEM ''a'' []"
definition ex_b :: node where "ex_b = Node SKOLEM ''b'' []"
definition ex_fa :: node where "ex_fa = Node APPLY_UF ''f'' [Node SKOLEM ''a'' []]"
definition ex_x :: node where "ex_x = Node VARIABLE ''x'' []"
definition ex_to_int_x :: node where "ex_to_int_x = Node TO_INTEGER ''to_int'' [Node VARIABLE ''x'' []]"
definition ex_u0 :: node where "ex_u0 = Node UNINTERPRETED_CONSTANT ''uc_U_0'' []"
definition ex_u1 :: node where "ex_u1 = Node UNINTERPRETED_CONSTANT ''uc_U_1'' []"

text \<open>The solver's defaults for the options the file reads.\<close>

definition ex_opts :: options where
  "ex_opts = \<lparr>finiteModelFind = False, quantRepMode = FIRST, cbqi = False,
     lteRestrictInstClosure = False, instMaxLevel = - 1, instLevelInputOnly = True\<rparr>"

text \<open>An engine that has registered no term.\<close>

definition ex_engine_empty :: equality_engine where
  "ex_engine_empty = \<lparr>ee_hasTerm = (\<lambda>n. False), ee_getRepresentative = (\<lambda>n. n),
     ee_areEqual = (\<lambda>a b. a = b), ee_areDisequal = (\<lambda>a b. False), ee_eqc_iter = (\<lambda>n. [n])\<rparr>"

text \<open>An engine with the one class \<open>{f(a), a, b}\<close>, represented by \<open>f(a)\<close>.\<close>

definition ex_engine_fab :: equality_engine where
  "ex_engine_fab = \<lparr>ee_hasTerm = (\<lambda>n. n \<in> {ex_fa, ex_a, ex_b}),
     ee_getRepresentative = (\<lambda>n. ex_fa),
     ee_areEqual = (\<lambda>a b. True), ee_areDisequal = (\<lambda>a b. False),
     ee_eqc_iter = (\<lambda>n. [ex_fa, ex_a, ex_b])\<rparr>"

text \<open>An engine with the one class \<open>{x, to_int(x)}\<close>, represented by \<open>x\<close>.\<close>

definition ex_engine_to_int :: equality_engine where
  "ex_engine_to_int = \<lparr>ee_hasTerm = (\<lambda>n. n \<in> {ex_x, ex_to_int_x}),
     ee_getRepresentative = (\<lambda>n. ex_x),
     ee_areEqual = (\<lambda>a b. True), ee_areDisequal = (\<lambda>a b. False),
     ee_eqc_iter = (\<lambda>n. [ex_x, ex_to_int_x])\<rparr>"

text \<open>
  The arithmetic types with \<open>Int\<close> a subtype of \<open>Real\<close>: \<open>x\<close> is real, every
  other term of the examples has the type given.
\<close>

definition ex_isSubtypeOf :: "tnode \<Rightarrow> tnode \<Rightarrow> bool" where
  "ex_isSubtypeOf t1 t2 = (t1 = t2 \<or> (t1 = tInt \<and> t2 = tReal))"

definition ex_env :: "equality_engine \<Rightarrow> options \<Rightarrow> (node \<Rightarrow> tnode) \<Rightarrow> env" where
  "ex_env ee os ty = \<lparr>getActiveEqualityEngine = ee, opts = os, getModel = None,
     getType = ty, isSubtypeOf = ex_isSubtypeOf, isSort = (\<lambda>t. t = tU),
     isConst = (\<lambda>n. getKind n \<in> {CONST_RATIONAL, UNINTERPRETED_CONSTANT}), containsUninterpretedConstant = (\<lambda>n. getKind n = UNINTERPRETED_CONSTANT),
     hasInstConstAttr = (\<lambda>n. False), isInstClosure = (\<lambda>n. True),
     hasTermCurrent = (\<lambda>n. True), InstLevelAttribute = (\<lambda>n. None)\<rparr>"

definition ex_type_U :: "node \<Rightarrow> tnode" where
  "ex_type_U n = tU"

definition ex_type_arith :: "node \<Rightarrow> tnode" where
  "ex_type_arith n = (if n = ex_x then tReal else tInt)"

text \<open>
  Finite model finding: \<open>box(uc_U_0)\<close> is a value of the type \<open>Box\<close>, which is
  not an uninterpreted sort; the model has a witness, \<open>b\<close>, for \<open>uc_U_1\<close> only.
\<close>

definition tBox :: tnode where "tBox = TypeNode ''Box''"

definition ex_box_u0 :: node where
  "ex_box_u0 = Node APPLY_UF ''box'' [Node UNINTERPRETED_CONSTANT ''uc_U_0'' []]"

definition ex_type_fmf :: "node \<Rightarrow> tnode" where
  "ex_type_fmf n = (if n = ex_box_u0 then tBox else tU)"

definition ex_model :: "node \<Rightarrow> node option" where
  "ex_model v = (if v = ex_u1 then Some ex_b else None)"

definition ex_env_fmf :: env where
  "ex_env_fmf = (ex_env ex_engine_fab (ex_opts\<lparr>finiteModelFind := True\<rparr>) ex_type_fmf)
     \<lparr>getModel := Some ex_model,
      isConst := (\<lambda>n. n \<in> {ex_u0, ex_u1, ex_box_u0}),
      containsUninterpretedConstant := (\<lambda>n. n \<in> {ex_u0, ex_u1, ex_box_u0})\<rparr>"

text \<open>
  The state after the first query for \<open>f(a)\<close> on the engine \<open>{f(a), a, b}\<close>
  with the default options, and a session that resets twice and asks again.
\<close>

definition ex_state_chosen :: state where
  "ex_state_chosen = \<lparr>d_int_rep = (\<lambda>v_tn. Map.empty)(tU := [ex_fa \<mapsto> ex_a]),
     d_rep_score = [ex_a \<mapsto> 0], d_reset_count = 0\<rparr>"

definition ex_calls :: "call list" where
  "ex_calls = [Call_reset EFFORT_FULL, Call_reset EFFORT_LAST_CALL,
     Call_getInternalRepresentative (ex_env ex_engine_fab ex_opts ex_type_U) ex_fa None 0]"

text \<open>
  A maximum instantiation level of 3; \<open>a\<close> has level 2 and \<open>f(a)\<close> has
  level \<open>2^31\<close>, no other term has one.
\<close>

definition ex_env_level :: "bool \<Rightarrow> env" where
  "ex_env_level inputOnly =
     (ex_env ex_engine_fab (ex_opts\<lparr>instMaxLevel := 3, instLevelInputOnly := inputOnly\<rparr>) ex_type_U)
     \<lparr>InstLevelAttribute :=
        (\<lambda>n. if n = ex_a then Some 2 else if n = ex_fa then Some 2147483648 else None)\<rparr>"



text \<open>
  Counterexample-guided instantiation with every term carrying an instantiation
  constant; the arithmetic class \<open>{x, to_int(x)}\<close> under the defaults.
\<close>

definition ex_env_cbqi :: "equality_engine \<Rightarrow> (node \<Rightarrow> tnode) \<Rightarrow> env" where
  "ex_env_cbqi ee ty = (ex_env ee (ex_opts\<lparr>cbqi := True\<rparr>) ty)\<lparr>hasInstConstAttr := (\<lambda>n. True)\<rparr>"

definition ex_env_arith :: env where
  "ex_env_arith = ex_env ex_engine_to_int ex_opts ex_type_arith"

section \<open>Properties\<close>

lemmas ex_simps = hasTerm_def getEngine_def ex_env_def ex_engine_fab_def ex_engine_empty_def
  ex_engine_to_int_def ex_opts_def ex_type_U_def ex_type_arith_def ex_isSubtypeOf_def
  ex_a_def ex_b_def ex_fa_def ex_x_def ex_to_int_x_def ex_u0_def ex_u1_def
  tInt_def tReal_def tU_def

lemmas eval_simps = getInternalRepresentative_def mapModelValue_def getRepresentative_def
  lookupOrChoose_def targetType_def init_state_def chooseRepresentative_def
  getEquivalenceClass_def scoredWinner_def getRepScore_def Let_def reset_def nodeChild_def
  uint64_to_int_def


subsection \<open>Equality and disequality queries\<close>

text \<open>
  Claim C10. \<open>areEqual(a, a)\<close> is true and \<open>areDisequal(a, a)\<close> is false whether
  or not the engine has registered \<open>a\<close>. For distinct \<open>a\<close> and \<open>b\<close> of
  which at least one is not registered, \<open>areEqual(a, b)\<close> is false and
  \<open>areDisequal(a, b)\<close> is true exactly when both are constants.
\<close>

theorem areEqual_areDisequal_unregistered:
  "areEqual E a a \<and> \<not> areDisequal E a a \<and>
   (a \<noteq> b \<and> (\<not> hasTerm E a \<or> \<not> hasTerm E b) \<longrightarrow>
      \<not> areEqual E a b \<and> areDisequal E a b = (isConst E a \<and> isConst E b))"
  by (auto simp: areEqual_def areDisequal_def hasTerm_def Let_def)

theorem areEqual_areDisequal_unregistered_witness:
  "\<not> areEqual (ex_env ex_engine_empty ex_opts ex_type_U) ex_u0 ex_u1 \<and>
   areDisequal (ex_env ex_engine_empty ex_opts ex_type_U) ex_u0 ex_u1 \<and>
   \<not> areDisequal (ex_env ex_engine_fab ex_opts ex_type_U) ex_a ex_x"
  using areEqual_areDisequal_unregistered [of "ex_env ex_engine_empty ex_opts ex_type_U" ex_u0 ex_u1]
    areEqual_areDisequal_unregistered [of "ex_env ex_engine_fab ex_opts ex_type_U" ex_a ex_x]
  by (simp add: hasTerm_def getEngine_def ex_env_def ex_engine_empty_def ex_engine_fab_def
      ex_u0_def ex_u1_def ex_a_def ex_x_def ex_fa_def ex_b_def)

subsection \<open>The equivalence class of a term\<close>

text \<open>
  Claim C9. Every sequence that \<open>getEquivalenceClass(t)\<close> produces contains
  \<open>t\<close>, whatever the vector held before. On an empty vector: when the engine does
  not know \<open>t\<close> the sequence is the singleton of \<open>t\<close>; when it knows
  \<open>t\<close> the sequence is what the class iterator yields for the representative of
  \<open>t\<close>, and the assertion halts the call when \<open>t\<close> is not among them.
\<close>

theorem getEquivalenceClass_contains_term:
  "(\<forall>eqc'. getEquivalenceClass E t eqc = Inr eqc' \<longrightarrow> t \<in> set eqc') \<and>
   (\<not> hasTerm E t \<longrightarrow> getEquivalenceClass E t [] = Inr [t]) \<and>
   (hasTerm E t \<longrightarrow>
      getEquivalenceClass E t [] =
        (let members = ee_eqc_iter (getEngine E) (ee_getRepresentative (getEngine E) t)
         in if t \<in> set members then Inr members else Inl Assert_in_own_eqc))"
  by (auto simp: getEquivalenceClass_def hasTerm_def Let_def split: if_splits)

theorem getEquivalenceClass_contains_term_witness:
  "getEquivalenceClass (ex_env ex_engine_fab ex_opts ex_type_U) ex_a [] = Inr [ex_fa, ex_a, ex_b] \<and>
   ex_a \<in> set [ex_fa, ex_a, ex_b] \<and>
   getEquivalenceClass (ex_env ex_engine_fab ex_opts ex_type_U) ex_x [] = Inr [ex_x]"
  using getEquivalenceClass_contains_term [of "ex_env ex_engine_fab ex_opts ex_type_U" ex_a "[]"]
    getEquivalenceClass_contains_term [of "ex_env ex_engine_fab ex_opts ex_type_U" ex_x "[]"]
  by (simp add: hasTerm_def getEngine_def ex_env_def ex_engine_fab_def
      ex_a_def ex_x_def ex_fa_def ex_b_def)

subsection \<open>Finite model finding: values without a witnessing term\<close>

text \<open>
  Claim C8. Under finite model finding, when the raw representative is a constant that
  contains an uninterpreted constant and the model has no witnessing term for it: the
  call halts at the assertion when the type of the representative is an uninterpreted
  sort, and goes on with the representative it has when the type is not one. When the
  model has a witness, the representative is replaced by the equality engine's
  representative of the witness.
\<close>

theorem model_value_without_witness:
  assumes "finiteModelFind (opts E)"
    and "r = getRepresentative E a"
    and "isConst E r" and "containsUninterpretedConstant E r"
    and "getModel E = Some getTermForRepresentative"
    and "q = None \<or> (\<exists>qn. q = Some qn \<and> getKind qn = FORALL)"
  shows "(getTermForRepresentative r = None \<and> isSort E (getType E r) \<longrightarrow>
            getInternalRepresentative E s a q index = Inl Assert_UF_constant_has_term) \<and>
         (getTermForRepresentative r = None \<and> \<not> isSort E (getType E r) \<longrightarrow>
            mapModelValue E r = Inr r \<and>
            getInternalRepresentative E s a q index = lookupOrChoose E s a q index r) \<and>
         (\<forall>tr. getTermForRepresentative r = Some tr \<longrightarrow>
            mapModelValue E r = Inr (getRepresentative E tr) \<and>
            getInternalRepresentative E s a q index =
              lookupOrChoose E s a q index (getRepresentative E tr))"
  using assms by (auto simp: getInternalRepresentative_def mapModelValue_def)

theorem model_value_without_witness_witness:
  "getInternalRepresentative ex_env_fmf init_state ex_u0 None 0 = Inl Assert_UF_constant_has_term \<and>
   map_sum id fst (getInternalRepresentative ex_env_fmf init_state ex_box_u0 None 0) = Inr ex_box_u0 \<and>
   map_sum id fst (getInternalRepresentative ex_env_fmf init_state ex_u1 None 0) = Inr ex_a"
  using model_value_without_witness [of ex_env_fmf ex_u0 ex_u0 ex_model None init_state 0]
    model_value_without_witness [of ex_env_fmf ex_box_u0 ex_box_u0 ex_model None init_state 0]
    model_value_without_witness [of ex_env_fmf ex_u1 ex_u1 ex_model None init_state 0]
  by (simp add: eval_simps ex_env_fmf_def ex_type_fmf_def ex_box_u0_def ex_model_def tBox_def
      ex_simps)

subsection \<open>Reset and the first-chosen table\<close>

lemma getInternalRepresentative_keeps_first_chosen:
  assumes "getInternalRepresentative E s a q index = Inr (x, s')"
    and "d_rep_score s n = Some g"
  shows "d_rep_score s' n = Some g"
  using assms
  by (auto simp: getInternalRepresentative_def lookupOrChoose_def chooseRepresentative_def Let_def
      split: if_splits sum.splits option.splits)

lemma run_keeps_first_chosen:
  "run calls s = Inr s' \<Longrightarrow> d_rep_score s n = Some g \<Longrightarrow> d_rep_score s' n = Some g"
proof (induction calls s rule: run.induct)
  case (1 s)
  then show ?case by simp
next
  case (2 e cs s)
  then show ?case by (simp add: reset_def)
next
  case (3 E a q index cs s)
  then show ?case
    by (auto split: sum.splits dest: getInternalRepresentative_keeps_first_chosen)
qed

lemma ex_calls_run:
  "run ex_calls ex_state_chosen = Inr (ex_state_chosen\<lparr>d_reset_count := 2\<rparr>)"
  by (simp add: eval_simps ex_simps ex_state_chosen_def ex_calls_def)

text \<open>
  Claim C7. \<open>reset\<close> empties the whole cache, adds exactly one to the generation
  counter and leaves the first-chosen table as it is; a term recorded as first chosen at
  generation \<open>g\<close> is still recorded at \<open>g\<close> at the end of every session that
  follows, whatever resets and queries it makes, since a query writes the table only for
  a term that has no entry.
\<close>

theorem reset_keeps_first_chosen:
  "fst (reset e s) = True \<and>
   d_int_rep (snd (reset e s)) = (\<lambda>v_tn. Map.empty) \<and>
   d_reset_count (snd (reset e s)) = d_reset_count s + 1 \<and>
   d_rep_score (snd (reset e s)) = d_rep_score s \<and>
   (\<forall>calls s'. d_rep_score s n = Some g \<and> run calls s = Inr s' \<longrightarrow> d_rep_score s' n = Some g)"
  by (auto simp: reset_def dest: run_keeps_first_chosen)

theorem reset_keeps_first_chosen_witness:
  "run ex_calls ex_state_chosen = Inr (ex_state_chosen\<lparr>d_reset_count := 2\<rparr>) \<and>
   d_rep_score ex_state_chosen ex_a = Some 0 \<and>
   d_rep_score (ex_state_chosen\<lparr>d_reset_count := 2\<rparr>) ex_a = Some 0"
  using reset_keeps_first_chosen [of EFFORT_FULL ex_state_chosen ex_a 0] ex_calls_run
  by (simp add: ex_state_chosen_def)

subsection \<open>The level tier of the score\<close>

lemma uint64_to_int_small:
  assumes "uint level < 2 ^ 31"
  shows "uint64_to_int level = uint level"
proof -
  from assms have "uint level < 2 ^ 32" by simp
  then have low: "uint (ucast level :: 32 word) = uint level"
    by (simp add: unsigned_ucast_eq take_bit_int_eq_self)
  have "sint (ucast level :: 32 word) = signed_take_bit 31 (uint (ucast level :: 32 word))"
    by (simp add: sint_uint)
  also have "\<dots> = signed_take_bit 31 (uint level)" by (simp only: low)
  also have "\<dots> = uint level"
  proof (rule signed_take_bit_int_eq_self)
    show "- (2 ^ 31) \<le> uint level"
      by (rule order_trans [OF _ uint_nonnegative]) simp
    from assms show "uint level < 2 ^ 31" .
  qed
  finally show ?thesis by (simp add: uint64_to_int_def)
qed

lemma ex_level_scores:
  "getRepScore (ex_env_level True) init_state ex_a None 0 tU = Inr 2"
  "getRepScore (ex_env_level True) init_state ex_b None 0 tU = Inr (- 1)"
  "getRepScore (ex_env_level False) init_state ex_b None 0 tU = Inr 0"
  "getRepScore (ex_env_level True) init_state ex_fa None 0 tU = Inr (- 2147483648)"
  by (simp_all add: getRepScore_def uint64_to_int_def ex_env_level_def ex_simps)

text \<open>
  Claim C5, as amended. With a maximum instantiation level configured
  (\<open>instMaxLevel\<close> is not -1), a candidate that passes the earlier tiers scores its
  instantiation level when it has one and the level is below \<open>2^31\<close>; when it has
  none it scores -1 if \<open>instLevelInputOnly\<close> is set and 0 if it is not set.
\<close>

theorem getRepScore_level_tier:
  assumes "instMaxLevel (opts E) \<noteq> - 1"
    and "\<not> (cbqi (opts E) \<and> hasInstConstAttr E n)"
    and "isSubtypeOf E (getType E n) v_tn"
    and "\<not> (lteRestrictInstClosure (opts E) \<and> (\<not> isInstClosure E n \<or> \<not> hasTermCurrent E n))"
  shows "(\<forall>level. InstLevelAttribute E n = Some level \<and> uint level < 2 ^ 31 \<longrightarrow>
            getRepScore E s n q index v_tn = Inr (uint level)) \<and>
         (InstLevelAttribute E n = None \<longrightarrow>
            getRepScore E s n q index v_tn =
              Inr (if instLevelInputOnly (opts E) then - 1 else 0))"
  using assms by (auto simp: getRepScore_def uint64_to_int_small)

theorem getRepScore_level_tier_witness:
  "getRepScore (ex_env_level True) init_state ex_a None 0 tU = Inr (uint (2 :: 64 word)) \<and>
   getRepScore (ex_env_level True) init_state ex_b None 0 tU = Inr (- 1) \<and>
   getRepScore (ex_env_level False) init_state ex_b None 0 tU = Inr 0"
proof -
  have pre: "instMaxLevel (opts (ex_env_level io)) \<noteq> - 1"
    "\<not> (cbqi (opts (ex_env_level io)) \<and> hasInstConstAttr (ex_env_level io) n)"
    "isSubtypeOf (ex_env_level io) (getType (ex_env_level io) n) tU"
    "\<not> (lteRestrictInstClosure (opts (ex_env_level io)) \<and>
        (\<not> isInstClosure (ex_env_level io) n \<or> \<not> hasTermCurrent (ex_env_level io) n))"
    for io n
    by (simp_all add: ex_env_level_def ex_simps)
  have a: "InstLevelAttribute (ex_env_level True) ex_a = Some 2 \<and> uint (2 :: 64 word) < 2 ^ 31"
    by (simp add: ex_env_level_def ex_simps)
  have b: "InstLevelAttribute (ex_env_level io) ex_b = None" for io
    by (simp add: ex_env_level_def ex_simps)
  have t: "instLevelInputOnly (opts (ex_env_level True))"
    and f: "\<not> instLevelInputOnly (opts (ex_env_level False))"
    by (simp_all add: ex_env_level_def ex_simps)
  from getRepScore_level_tier [OF pre, of True ex_a init_state None 0] a
  have 1: "getRepScore (ex_env_level True) init_state ex_a None 0 tU = Inr (uint (2 :: 64 word))"
    by blast
  from getRepScore_level_tier [OF pre, of True ex_b init_state None 0] b t
  have 2: "getRepScore (ex_env_level True) init_state ex_b None 0 tU = Inr (- 1)"
    by simp
  from getRepScore_level_tier [OF pre, of False ex_b init_state None 0] b f
  have 3: "getRepScore (ex_env_level False) init_state ex_b None 0 tU = Inr 0"
    by simp
  from 1 2 3 show ?thesis by blast
qed

text \<open>
  The claim as first worded has the flag the other way round: with the flag set a
  candidate without a level scores -1, and with the flag not set it scores 0. And a level
  is not always the score: the level \<open>2^31\<close> scores \<open>-2^31\<close>.
\<close>

theorem getRepScore_input_only_counterexample:
  "instMaxLevel (opts (ex_env_level True)) = 3 \<and>
   InstLevelAttribute (ex_env_level True) ex_b = None \<and>
   instLevelInputOnly (opts (ex_env_level True)) \<and>
   getRepScore (ex_env_level True) init_state ex_b None 0 tU = Inr (- 1) \<and>
   \<not> instLevelInputOnly (opts (ex_env_level False)) \<and>
   getRepScore (ex_env_level False) init_state ex_b None 0 tU = Inr 0 \<and>
   InstLevelAttribute (ex_env_level True) ex_fa = Some 2147483648 \<and>
   getRepScore (ex_env_level True) init_state ex_fa None 0 tU = Inr (- 2147483648)"
  by (simp add: ex_level_scores) (simp add: ex_env_level_def ex_simps)

subsection \<open>The instance guard\<close>

lemma find_append_cases:
  "find P (xs @ ys) = (case find P xs of Some x \<Rightarrow> Some x | None \<Rightarrow> find P ys)"
  by (induction xs) auto

lemma getInstance_sound:
  "cacheSound eqc cache \<Longrightarrow>
     fst (getInstance n eqc cache) = find (\<lambda>m. m \<in> set eqc) (subtermsDeepestFirst n) \<and>
     cacheSound eqc (snd (getInstance n eqc cache))"
  "cacheSound eqc cache \<Longrightarrow>
     fst (getInstance_children cs eqc cache) =
       find (\<lambda>m. m \<in> set eqc) (concat (map subtermsDeepestFirst cs)) \<and>
     cacheSound eqc (snd (getInstance_children cs eqc cache))"
proof (induction n eqc cache and cs eqc cache rule: getInstance_getInstance_children.induct)
  case (1 k sy cs eqc cache)
  show ?case
  proof (cases "cache (Node k sy cs)")
    case (Some v)
    with "1.prems" have "v = find (\<lambda>m. m \<in> set eqc) (subtermsDeepestFirst (Node k sy cs))"
      unfolding cacheSound_def by blast
    with Some "1.prems" show ?thesis by simp
  next
    case None
    obtain res cache' where ch: "getInstance_children cs eqc cache = (res, cache')"
      by (cases "getInstance_children cs eqc cache")
    from "1.IH" [OF None "1.prems"] ch
    have res: "res = find (\<lambda>m. m \<in> set eqc) (concat (map subtermsDeepestFirst cs))"
      and snd: "cacheSound eqc cache'" by simp_all
    show ?thesis
    proof (cases res)
      case None' : None
      from ch None' have ch': "getInstance_children cs eqc cache = (None, cache')" by simp
      from res None' have fd: "find (\<lambda>m. m \<in> set eqc) (concat (map subtermsDeepestFirst cs)) = None"
        by simp
      from snd show ?thesis
        by (simp add: None ch' fd find_append_cases cacheSound_def)
    next
      case (Some nn)
      from ch Some have ch': "getInstance_children cs eqc cache = (Some nn, cache')" by simp
      from res Some have fd: "find (\<lambda>m. m \<in> set eqc) (concat (map subtermsDeepestFirst cs)) = Some nn"
        by simp
      from snd show ?thesis
        by (simp add: None ch' fd find_append_cases cacheSound_def)
    qed
  qed
next
  case (2 eqc cache)
  then show ?case by simp
next
  case (3 c cs eqc cache)
  obtain res cache' where c: "getInstance c eqc cache = (res, cache')"
    by (cases "getInstance c eqc cache")
  from "3.IH"(1) [OF "3.prems"] c
  have res: "res = find (\<lambda>m. m \<in> set eqc) (subtermsDeepestFirst c)"
    and snd: "cacheSound eqc cache'" by simp_all
  show ?case
  proof (cases res)
    case None
    from c None have c': "getInstance c eqc cache = (None, cache')" by simp
    from res None have fd: "find (\<lambda>m. m \<in> set eqc) (subtermsDeepestFirst c) = None" by simp
    from "3.IH"(2) [OF c [symmetric] None snd] show ?thesis
      by (simp add: c' fd find_append_cases)
  next
    case (Some nn)
    from c Some have c': "getInstance c eqc cache = (Some nn, cache')" by simp
    from res Some have fd: "find (\<lambda>m. m \<in> set eqc) (subtermsDeepestFirst c) = Some nn" by simp
    from snd show ?thesis by (simp add: c' fd find_append_cases)
  qed
qed

lemma firstNestedMember_find:
  "firstNestedMember n eqc = find (\<lambda>m. m \<in> set eqc) (subtermsDeepestFirst n)"
  by (cases n)
    (simp add: firstNestedMember_def properSubterms_def find_append_cases split: option.splits)

lemma cacheSound_empty: "cacheSound eqc Map.empty"
  by (simp add: cacheSound_def)

lemma subterm_size: "m \<in> set (subtermsDeepestFirst n) \<Longrightarrow> size m \<le> size n"
proof (induction n arbitrary: m)
  case (Node k sy cs)
  show ?case
  proof (cases "m = Node k sy cs")
    case True
    then show ?thesis by simp
  next
    case False
    with Node.prems obtain c where c: "c \<in> set cs" and m: "m \<in> set (subtermsDeepestFirst c)"
      by auto
    from Node.IH [OF c m] have "size m \<le> size c" .
    moreover from c have "size c \<le> size_list size cs"
      by (simp add: size_list_estimation')
    ultimately show ?thesis by simp
  qed
qed

lemma properSubterms_smaller: "m \<in> set (properSubterms n) \<Longrightarrow> size m < size n"
proof (cases n)
  case (Node k sy cs)
  assume "m \<in> set (properSubterms n)"
  with Node obtain c where c: "c \<in> set cs" and m: "m \<in> set (subtermsDeepestFirst c)"
    by (auto simp: properSubterms_def)
  from subterm_size [OF m] have "size m \<le> size c" .
  moreover from c have "size c \<le> size_list size cs"
    by (simp add: size_list_estimation')
  ultimately show ?thesis using Node by simp
qed


lemma getInstance_fresh:
  "fst (getInstance n eqc Map.empty) = firstNestedMember n eqc"
  using getInstance_sound(1) [OF cacheSound_empty]
  by (simp add: firstNestedMember_find)

lemma chooseRepresentative_result:
  assumes "chooseRepresentative E s q index v_tn r = Inr (x, s')"
  shows "\<exists>eqc winner. getEquivalenceClass E r [] = Inr eqc \<and>
           scoredWinner (\<lambda>n. getRepScore E s n q index v_tn) eqc r = Inr winner \<and>
           firstNestedMember winner eqc = Some x \<and>
           isSubtypeOf E (getType E x) v_tn \<and>
           d_int_rep s' = (d_int_rep s)(v_tn := (d_int_rep s v_tn)(r \<mapsto> x)) \<and>
           d_reset_count s' = d_reset_count s \<and>
           d_rep_score s' =
             (if d_rep_score s x = None then (d_rep_score s)(x \<mapsto> d_reset_count s)
              else d_rep_score s)"
  using assms
  by (auto simp: chooseRepresentative_def getInstance_fresh Let_def
      split: sum.splits option.splits if_splits)

lemma getInternalRepresentative_miss:
  assumes "q = None \<or> (\<exists>qn. q = Some qn \<and> getKind qn = FORALL)"
    and "mapModelValue E (getRepresentative E a) = Inr r"
    and "quantRepMode (opts E) \<noteq> EE"
    and "targetType E a q index = Inr v_tn"
    and "d_int_rep s v_tn r = None"
  shows "getInternalRepresentative E s a q index = chooseRepresentative E s q index v_tn r"
  using assms by (auto simp: getInternalRepresentative_def lookupOrChoose_def)

lemma ex_fab_query_b:
  "getInternalRepresentative (ex_env ex_engine_fab ex_opts ex_type_U) init_state ex_b None 0 =
     Inr (ex_a, ex_state_chosen)"
  by (simp add: eval_simps ex_simps ex_state_chosen_def)

lemma ex_fab_winner:
  "scoredWinner (\<lambda>n. getRepScore (ex_env ex_engine_fab ex_opts ex_type_U) init_state n None 0 tU)
     [ex_fa, ex_a, ex_b] ex_fa = Inr ex_fa"
  by (simp add: eval_simps ex_simps)

lemma ex_fab_class:
  "getEquivalenceClass (ex_env ex_engine_fab ex_opts ex_type_U) ex_fa [] = Inr [ex_fa, ex_a, ex_b]"
  by (simp add: eval_simps ex_simps)

lemma ex_fab_rep:
  "mapModelValue (ex_env ex_engine_fab ex_opts ex_type_U)
     (getRepresentative (ex_env ex_engine_fab ex_opts ex_type_U) ex_b) = Inr ex_fa"
  by (simp add: eval_simps ex_simps)


lemma ex_fab_target:
  "targetType (ex_env ex_engine_fab ex_opts ex_type_U) ex_b None 0 = Inr tU"
  by (simp add: eval_simps ex_simps)

text \<open>
  Claim C6. \<open>getInstance(candidate, eqc, cache)\<close>, on a fresh memo table or on
  one that earlier searches of the same class have filled, searches the subterms of the
  candidate depth first and left to right and returns the first proper subterm, deepest
  first, that is a member of the class; when there is none it returns the candidate if
  the candidate is a member, and null otherwise. So on a cache miss the term that
  \<open>getInternalRepresentative\<close> returns is the result of that search on the scored
  winner: when a member of the class is nested in the winner, it is that nested member
  and not the winner.
\<close>

theorem getInstance_first_nested_member:
  "(cacheSound eqc cache \<longrightarrow> fst (getInstance candidate eqc cache) = firstNestedMember candidate eqc) \<and>
   fst (getInstance candidate eqc Map.empty) = firstNestedMember candidate eqc \<and>
   ((q = None \<or> (\<exists>qn. q = Some qn \<and> getKind qn = FORALL)) \<and>
    mapModelValue E (getRepresentative E a) = Inr r \<and>
    quantRepMode (opts E) \<noteq> EE \<and>
    targetType E a q index = Inr v_tn \<and>
    d_int_rep s v_tn r = None \<and>
    getEquivalenceClass E r [] = Inr members \<and>
    scoredWinner (\<lambda>n. getRepScore E s n q index v_tn) members r = Inr winner \<and>
    getInternalRepresentative E s a q index = Inr (x, s') \<longrightarrow>
      firstNestedMember winner members = Some x \<and>
      ((\<exists>m\<in>set (properSubterms winner). m \<in> set members) \<longrightarrow>
         find (\<lambda>m. m \<in> set members) (properSubterms winner) = Some x \<and>
         x \<in> set (properSubterms winner) \<and> x \<in> set members \<and> x \<noteq> winner))"
proof (intro conjI impI)
  assume "cacheSound eqc cache"
  from getInstance_sound(1) [OF this, of candidate]
  show "fst (getInstance candidate eqc cache) = firstNestedMember candidate eqc"
    by (simp add: firstNestedMember_find)
next
  show "fst (getInstance candidate eqc Map.empty) = firstNestedMember candidate eqc"
    by (rule getInstance_fresh)
next
  assume h: "(q = None \<or> (\<exists>qn. q = Some qn \<and> getKind qn = FORALL)) \<and>
    mapModelValue E (getRepresentative E a) = Inr r \<and>
    quantRepMode (opts E) \<noteq> EE \<and>
    targetType E a q index = Inr v_tn \<and>
    d_int_rep s v_tn r = None \<and>
    getEquivalenceClass E r [] = Inr members \<and>
    scoredWinner (\<lambda>n. getRepScore E s n q index v_tn) members r = Inr winner \<and>
    getInternalRepresentative E s a q index = Inr (x, s')"
  then have "chooseRepresentative E s q index v_tn r = Inr (x, s')"
    using getInternalRepresentative_miss [of q E a r index v_tn s] by simp
  from chooseRepresentative_result [OF this] h
  show fm: "firstNestedMember winner members = Some x" by auto
  assume "\<exists>m\<in>set (properSubterms winner). m \<in> set members"
  then have "find (\<lambda>m. m \<in> set members) (properSubterms winner) \<noteq> None"
    by (auto simp: find_None_iff)
  with fm show fd: "find (\<lambda>m. m \<in> set members) (properSubterms winner) = Some x"
    by (auto simp: firstNestedMember_def split: option.splits)
  then show x: "x \<in> set (properSubterms winner)" and "x \<in> set members"
    by (auto simp: find_Some_iff)
  from properSubterms_smaller [OF x] show "x \<noteq> winner" by auto
qed


theorem getInstance_first_nested_member_witness:
  "fst (getInstance ex_fa [ex_fa, ex_a, ex_b] Map.empty) = Some ex_a \<and>
   firstNestedMember ex_fa [ex_fa, ex_a, ex_b] = Some ex_a \<and>
   find (\<lambda>m. m \<in> set [ex_fa, ex_a, ex_b]) (properSubterms ex_fa) = Some ex_a \<and>
   getInternalRepresentative (ex_env ex_engine_fab ex_opts ex_type_U) init_state ex_b None 0 =
     Inr (ex_a, ex_state_chosen)"
proof -
  note T = getInstance_first_nested_member [where eqc = "[ex_fa, ex_a, ex_b]"
      and cache = Map.empty and candidate = ex_fa and q = None
      and E = "ex_env ex_engine_fab ex_opts ex_type_U" and a = ex_b and r = ex_fa
      and index = 0 and v_tn = tU and s = init_state and members = "[ex_fa, ex_a, ex_b]"
      and winner = ex_fa and x = ex_a and s' = ex_state_chosen]
  have opts: "quantRepMode (opts (ex_env ex_engine_fab ex_opts ex_type_U)) \<noteq> EE"
    by (simp add: ex_env_def ex_opts_def)
  have miss: "d_int_rep init_state tU ex_fa = None"
    by (simp add: init_state_def)
  have nested: "\<exists>m\<in>set (properSubterms ex_fa). m \<in> set [ex_fa, ex_a, ex_b]"
    by (simp add: properSubterms_def ex_fa_def ex_a_def)
  from T have 1: "fst (getInstance ex_fa [ex_fa, ex_a, ex_b] Map.empty) =
      firstNestedMember ex_fa [ex_fa, ex_a, ex_b]" by blast
  from T ex_fab_rep opts ex_fab_target miss ex_fab_class ex_fab_winner ex_fab_query_b nested
  have 2: "firstNestedMember ex_fa [ex_fa, ex_a, ex_b] = Some ex_a \<and>
     find (\<lambda>m. m \<in> set [ex_fa, ex_a, ex_b]) (properSubterms ex_fa) = Some ex_a"
    by metis
  from 1 2 ex_fab_query_b show ?thesis by simp
qed


subsection \<open>The selection loop\<close>
















lemma generationsNonneg_reset: "generationsNonneg s \<Longrightarrow> generationsNonneg (snd (reset e s))"
  by (simp add: generationsNonneg_def reset_def)

lemma generationsNonneg_getInternalRepresentative:
  assumes "getInternalRepresentative E s a q index = Inr (x, s')" and "generationsNonneg s"
  shows "generationsNonneg s'"
  using assms
  by (auto simp: getInternalRepresentative_def lookupOrChoose_def chooseRepresentative_def Let_def
      generationsNonneg_def split: if_splits sum.splits option.splits)

lemma generationsNonneg_run:
  "run calls s = Inr s' \<Longrightarrow> generationsNonneg s \<Longrightarrow> generationsNonneg s'"
proof (induction calls s rule: run.induct)
  case (1 s)
  then show ?case by simp
next
  case (2 e cs s)
  then show ?case by (simp add: generationsNonneg_reset)
next
  case (3 E a q index cs s)
  then show ?case
    by (auto split: sum.splits dest: generationsNonneg_getInternalRepresentative)
qed







subsection \<open>Repeated queries within a generation\<close>

text \<open>
  Claim C3. When a call of \<open>getInternalRepresentative\<close> returns a term, the same
  call made again on the state it left, with the same collaborators and no reset between
  the two, returns the same term and leaves the state as it is. In the modes that use the
  cache, the state the first call left holds that term under the target type and the raw
  representative, which is the entry the second call reads.
\<close>

theorem getInternalRepresentative_idempotent:
  assumes "getInternalRepresentative E s a q index = Inr (x, s')"
  shows "getInternalRepresentative E s' a q index = Inr (x, s') \<and>
         (quantRepMode (opts E) \<noteq> EE \<longrightarrow>
            (\<exists>r v_tn. mapModelValue E (getRepresentative E a) = Inr r \<and>
               targetType E a q index = Inr v_tn \<and> d_int_rep s' v_tn r = Some x))"
proof -
  from assms have qok: "(case q of None \<Rightarrow> True | Some qn \<Rightarrow> getKind qn = FORALL)"
    by (simp add: getInternalRepresentative_def split: if_splits)
  from assms qok obtain r where r: "mapModelValue E (getRepresentative E a) = Inr r"
    and l: "lookupOrChoose E s a q index r = Inr (x, s')"
    by (auto simp: getInternalRepresentative_def split: sum.splits)
  show ?thesis
  proof (cases "quantRepMode (opts E) = EE")
    case True
    with l have "x = r" and "s' = s" by (simp_all add: lookupOrChoose_def)
    with True qok r show ?thesis
      by (simp add: getInternalRepresentative_def lookupOrChoose_def)
  next
    case False
    with l obtain v_tn where v: "targetType E a q index = Inr v_tn"
      by (auto simp: lookupOrChoose_def split: sum.splits)
    have hit: "d_int_rep s' v_tn r = Some x"
    proof (cases "d_int_rep s v_tn r")
      case None
      with l False v have "chooseRepresentative E s q index v_tn r = Inr (x, s')"
        by (simp add: lookupOrChoose_def)
      from chooseRepresentative_result [OF this] show ?thesis by auto
    next
      case (Some chosen)
      with l False v show ?thesis by (simp add: lookupOrChoose_def)
    qed
    with False qok r v show ?thesis
      by (simp add: getInternalRepresentative_def lookupOrChoose_def)
  qed
qed

theorem getInternalRepresentative_idempotent_witness:
  "getInternalRepresentative (ex_env ex_engine_fab ex_opts ex_type_U) init_state ex_b None 0 =
     Inr (ex_a, ex_state_chosen) \<and>
   getInternalRepresentative (ex_env ex_engine_fab ex_opts ex_type_U) ex_state_chosen ex_b None 0 =
     Inr (ex_a, ex_state_chosen)"
  using getInternalRepresentative_idempotent [OF ex_fab_query_b] ex_fab_query_b
  by blast

subsection \<open>Every member rejected\<close>

lemma selectBest_all_rejected:
  "\<forall>n\<in>set eqc. score n = Inr (- 2) \<Longrightarrow> selectBest score eqc rb bs = Inr (rb, bs)"
  by (induction eqc arbitrary: rb bs) auto

lemma getEquivalenceClass_member: "getEquivalenceClass E r [] = Inr eqc \<Longrightarrow> r \<in> set eqc"
  by (auto simp: getEquivalenceClass_def Let_def split: if_splits)

lemma ex_cbqi_query_b:
  "getInternalRepresentative (ex_env_cbqi ex_engine_fab ex_type_U) init_state ex_b None 0 =
     Inr (ex_a, ex_state_chosen)"
  by (simp add: eval_simps ex_simps ex_state_chosen_def ex_env_cbqi_def)

lemma ex_cbqi_scores:
  "\<forall>n\<in>set [ex_fa, ex_a, ex_b]. getRepScore (ex_env_cbqi ex_engine_fab ex_type_U) init_state n None 0 tU = Inr (- 2)"
  by (simp add: getRepScore_def ex_env_cbqi_def ex_simps)

lemma ex_cbqi_rep:
  "mapModelValue (ex_env_cbqi ex_engine_fab ex_type_U)
     (getRepresentative (ex_env_cbqi ex_engine_fab ex_type_U) ex_b) = Inr ex_fa"
  by (simp add: eval_simps ex_simps ex_env_cbqi_def)

lemma ex_cbqi_class:
  "getEquivalenceClass (ex_env_cbqi ex_engine_fab ex_type_U) ex_fa [] = Inr [ex_fa, ex_a, ex_b]"
  by (simp add: eval_simps ex_simps ex_env_cbqi_def)

lemma ex_cbqi_target:
  "targetType (ex_env_cbqi ex_engine_fab ex_type_U) ex_b None 0 = Inr tU"
  by (simp add: eval_simps ex_simps ex_env_cbqi_def)

text \<open>
  Claim C2, as amended. On a cache miss in which every member of the enumerated class is
  scored -2, the term that \<open>getInternalRepresentative\<close> returns is the result of
  \<open>getInstance\<close> on the raw representative \<open>r\<close>: the first member of the
  class nested in \<open>r\<close> when there is one, and \<open>r\<close> itself, unchanged, when no
  proper subterm of \<open>r\<close> is a member of the class.
\<close>

theorem all_rejected_returns_instance_of_representative:
  assumes "q = None \<or> (\<exists>qn. q = Some qn \<and> getKind qn = FORALL)"
    and "mapModelValue E (getRepresentative E a) = Inr r"
    and "quantRepMode (opts E) \<noteq> EE"
    and "targetType E a q index = Inr v_tn"
    and "d_int_rep s v_tn r = None"
    and "getEquivalenceClass E r [] = Inr eqc"
    and "\<forall>n\<in>set eqc. getRepScore E s n q index v_tn = Inr (- 2)"
    and "getInternalRepresentative E s a q index = Inr (x, s')"
  shows "fst (getInstance r eqc Map.empty) = Some x \<and>
         firstNestedMember r eqc = Some x \<and>
         ((\<forall>m\<in>set (properSubterms r). m \<notin> set eqc) \<longrightarrow> x = r)"
proof -
  from getInternalRepresentative_miss [OF assms(1-5)] assms(8)
  have "chooseRepresentative E s q index v_tn r = Inr (x, s')" by simp
  from chooseRepresentative_result [OF this] assms(6)
  obtain winner where w: "scoredWinner (\<lambda>n. getRepScore E s n q index v_tn) eqc r = Inr winner"
    and fm: "firstNestedMember winner eqc = Some x"
    by auto
  from selectBest_all_rejected [of eqc "\<lambda>n. getRepScore E s n q index v_tn" None "- 1"] assms(7)
  have "scoredWinner (\<lambda>n. getRepScore E s n q index v_tn) eqc r = Inr r"
    by (simp add: scoredWinner_def)
  with w have "winner = r" by simp
  with fm have 1: "firstNestedMember r eqc = Some x" by simp
  have 2: "x = r" if "\<forall>m\<in>set (properSubterms r). m \<notin> set eqc"
  proof -
    from that have "find (\<lambda>m. m \<in> set eqc) (properSubterms r) = None"
      by (simp add: find_None_iff)
    with 1 getEquivalenceClass_member [OF assms(6)] show ?thesis
      by (simp add: firstNestedMember_def)
  qed
  from 1 2 show ?thesis by (simp add: getInstance_fresh)
qed

theorem all_rejected_returns_instance_of_representative_witness:
  "fst (getInstance ex_fa [ex_fa, ex_a, ex_b] Map.empty) = Some ex_a \<and>
   firstNestedMember ex_fa [ex_fa, ex_a, ex_b] = Some ex_a \<and>
   getInternalRepresentative (ex_env_cbqi ex_engine_fab ex_type_U) init_state ex_b None 0 =
     Inr (ex_a, ex_state_chosen)"
proof -
  have q: "None = None \<or> (\<exists>qn. None = Some qn \<and> getKind qn = FORALL)" by simp
  have mode: "quantRepMode (opts (ex_env_cbqi ex_engine_fab ex_type_U)) \<noteq> EE"
    by (simp add: ex_env_cbqi_def ex_env_def ex_opts_def)
  have m: "d_int_rep init_state tU ex_fa = None" by (simp add: init_state_def)
  from all_rejected_returns_instance_of_representative
    [OF q ex_cbqi_rep mode ex_cbqi_target m ex_cbqi_class ex_cbqi_scores ex_cbqi_query_b]
    ex_cbqi_query_b
  show ?thesis by blast
qed


text \<open>
  The claim as first worded fails where a member of the class is nested in the raw
  representative: with every member of \<open>{f(a), a, b}\<close> rejected, the query returns
  \<open>a\<close> and not the representative \<open>f(a)\<close>.
\<close>

theorem all_rejected_counterexample:
  "mapModelValue (ex_env_cbqi ex_engine_fab ex_type_U)
     (getRepresentative (ex_env_cbqi ex_engine_fab ex_type_U) ex_b) = Inr ex_fa \<and>
   d_int_rep init_state tU ex_fa = None \<and>
   getEquivalenceClass (ex_env_cbqi ex_engine_fab ex_type_U) ex_fa [] = Inr [ex_fa, ex_a, ex_b] \<and>
   getRepScore (ex_env_cbqi ex_engine_fab ex_type_U) init_state ex_fa None 0 tU = Inr (- 2) \<and>
   getRepScore (ex_env_cbqi ex_engine_fab ex_type_U) init_state ex_a None 0 tU = Inr (- 2) \<and>
   getRepScore (ex_env_cbqi ex_engine_fab ex_type_U) init_state ex_b None 0 tU = Inr (- 2) \<and>
   getInternalRepresentative (ex_env_cbqi ex_engine_fab ex_type_U) init_state ex_b None 0 =
     Inr (ex_a, ex_state_chosen) \<and>
   ex_a \<noteq> ex_fa"
proof -
  have s: "getRepScore (ex_env_cbqi ex_engine_fab ex_type_U) init_state ex_fa None 0 tU = Inr (- 2)"
    "getRepScore (ex_env_cbqi ex_engine_fab ex_type_U) init_state ex_a None 0 tU = Inr (- 2)"
    "getRepScore (ex_env_cbqi ex_engine_fab ex_type_U) init_state ex_b None 0 tU = Inr (- 2)"
    using ex_cbqi_scores by simp_all
  have m: "d_int_rep init_state tU ex_fa = None" by (simp add: init_state_def)
  have ne: "ex_a \<noteq> ex_fa" by (simp add: ex_a_def ex_fa_def)
  from ex_cbqi_rep m ex_cbqi_class s ex_cbqi_query_b ne show ?thesis by blast
qed


subsection \<open>The type of the chosen representative\<close>

lemma ex_arith_target: "targetType ex_env_arith ex_to_int_x None 0 = Inr tInt"
  by (simp add: eval_simps ex_simps ex_env_arith_def)

lemma ex_arith_class:
  "getEquivalenceClass ex_env_arith (getRepresentative ex_env_arith ex_to_int_x) [] =
     Inr [ex_x, ex_to_int_x]"
  by (simp add: eval_simps ex_simps ex_env_arith_def)

lemma ex_arith_scores:
  "getRepScore ex_env_arith init_state ex_x None 0 tInt = Inr (- 2)"
  "getRepScore ex_env_arith init_state ex_to_int_x None 0 tInt = Inr (- 1)"
  by (simp_all add: getRepScore_def ex_simps ex_env_arith_def init_state_def)

lemma ex_arith_winner:
  "scoredWinner (\<lambda>n. getRepScore ex_env_arith init_state n None 0 tInt) [ex_x, ex_to_int_x] ex_x =
     Inr ex_to_int_x"
  by (simp add: scoredWinner_def ex_arith_scores)

lemma ex_arith_instance:
  "fst (getInstance ex_to_int_x [ex_x, ex_to_int_x] Map.empty) = Some ex_x"
  by (simp add: ex_simps)

lemma ex_arith_type: "\<not> isSubtypeOf ex_env_arith (getType ex_env_arith ex_x) tInt"
  by (simp add: ex_simps ex_env_arith_def)

lemma ex_arith_query:
  "getInternalRepresentative ex_env_arith init_state ex_to_int_x None 0 = Inl Assert_rep_is_subtype"
  by (simp add: eval_simps ex_simps ex_env_arith_def)

lemma ex_arith_cbqi_scores:
  "getRepScore (ex_env_cbqi ex_engine_to_int ex_type_arith) init_state ex_x None 0 tInt = Inr (- 2)"
  "getRepScore (ex_env_cbqi ex_engine_to_int ex_type_arith) init_state ex_to_int_x None 0 tInt =
     Inr (- 2)"
  by (simp_all add: getRepScore_def ex_simps ex_env_cbqi_def)

lemma ex_arith_cbqi_query:
  "getInternalRepresentative (ex_env_cbqi ex_engine_to_int ex_type_arith) init_state ex_to_int_x None 0 =
     Inl Assert_rep_is_subtype"
  by (simp add: eval_simps ex_simps ex_env_cbqi_def)

text \<open>
  Claim C1 says that the term \<open>getInternalRepresentative(t, q, i)\<close> returns has a
  type that is a subtype of the target variable type, and that the assertion of that
  before the result is cached never fails, also when every member was rejected and the
  raw representative is the fallback. The code does not keep it. The engine holds the one
  class \<open>{x, to_int(x)}\<close> with \<open>x\<close> real, and the query is for
  \<open>to_int(x)\<close> with no quantifier, so the target type is \<open>Int\<close>. Under the
  default options \<open>x\<close> scores -2 and \<open>to_int(x)\<close> scores -1, the loop picks
  \<open>to_int(x)\<close>, \<open>getInstance\<close> replaces it by the nested \<open>x\<close>, whose
  type is not a subtype of \<open>Int\<close>, and the assertion fails. With every member
  rejected the fallback is the real \<open>x\<close> and the assertion fails again.
\<close>

theorem getInternalRepresentative_assertion_fails:
  "targetType ex_env_arith ex_to_int_x None 0 = Inr tInt \<and>
   getEquivalenceClass ex_env_arith (getRepresentative ex_env_arith ex_to_int_x) [] =
     Inr [ex_x, ex_to_int_x] \<and>
   getRepScore ex_env_arith init_state ex_x None 0 tInt = Inr (- 2) \<and>
   getRepScore ex_env_arith init_state ex_to_int_x None 0 tInt = Inr (- 1) \<and>
   scoredWinner (\<lambda>n. getRepScore ex_env_arith init_state n None 0 tInt) [ex_x, ex_to_int_x] ex_x =
     Inr ex_to_int_x \<and>
   fst (getInstance ex_to_int_x [ex_x, ex_to_int_x] Map.empty) = Some ex_x \<and>
   \<not> isSubtypeOf ex_env_arith (getType ex_env_arith ex_x) tInt \<and>
   getInternalRepresentative ex_env_arith init_state ex_to_int_x None 0 = Inl Assert_rep_is_subtype \<and>
   getRepScore (ex_env_cbqi ex_engine_to_int ex_type_arith) init_state ex_x None 0 tInt = Inr (- 2) \<and>
   getRepScore (ex_env_cbqi ex_engine_to_int ex_type_arith) init_state ex_to_int_x None 0 tInt =
     Inr (- 2) \<and>
   getInternalRepresentative (ex_env_cbqi ex_engine_to_int ex_type_arith) init_state ex_to_int_x None 0 =
     Inl Assert_rep_is_subtype"
  using ex_arith_target ex_arith_class ex_arith_scores ex_arith_winner ex_arith_instance
    ex_arith_type ex_arith_query ex_arith_cbqi_scores ex_arith_cbqi_query
  by blast

theorem getInternalRepresentative_assertion_fails_witness:
  "getInternalRepresentative ex_env_arith init_state ex_to_int_x None 0 = Inl Assert_rep_is_subtype \<and>
   getInternalRepresentative (ex_env_cbqi ex_engine_to_int ex_type_arith) init_state ex_to_int_x None 0 =
     Inl Assert_rep_is_subtype"
  using getInternalRepresentative_assertion_fails by blast

end
